theory Spec2Isabelle
  imports Main "HOL-Library.Sublist"
begin

section \<open>The text inspector tool of examples/GAIA_submission/gaia.py\<close>

text \<open>
  The file wires an agent framework together; its only logic of its own is the class
  \<^verbatim>\<open>TextInspectorTool\<close> with the two methods \<^verbatim>\<open>forward\<close> and
  \<^verbatim>\<open>forward_initial_exam_mode\<close>. Both call the document converter, reject image
  paths, hand back the converted text for archives and for a missing question, and
  otherwise build a prompt and call the language model.
\<close>

subsection \<open>Python strings\<close>

text \<open>
  A Python \<^verbatim>\<open>str\<close> is a sequence of code points; slicing, \<^verbatim>\<open>in\<close> and
  \<^verbatim>\<open>+\<close> work on code points. A string is therefore a list of code points, and
  \<open>py\<close> turns an ASCII literal of the source into that list.
\<close>

type_synonym pychar = nat
type_synonym pystr = "pychar list"

definition py :: "string \<Rightarrow> pystr" where
  "py s = map of_char s"

text \<open>The line feed a Python literal writes as \<^verbatim>\<open>\n\<close>.\<close>

definition NL :: pychar where
  "NL = 10"

text \<open>
  \<^verbatim>\<open>s[-k:]\<close> for a positive constant \<open>k\<close>: the last \<open>k\<close> characters, the whole
  string when it is shorter (the start index is clipped at 0, which the truncating
  subtraction on \<open>nat\<close> does as well).
\<close>

definition slice_last :: "nat \<Rightarrow> pystr \<Rightarrow> pystr" where
  "slice_last k s = drop (length s - k) s"

text \<open>\<^verbatim>\<open>s[:n]\<close> for a limit \<open>n \<ge> 0\<close>: the first \<open>n\<close> characters, the whole string when
  it is shorter.\<close>

definition slice_to :: "nat \<Rightarrow> pystr \<Rightarrow> pystr" where
  "slice_to n s = take n s"

text \<open>\<^verbatim>\<open>sub in s\<close> on strings: \<open>sub\<close> occurs in \<open>s\<close> as a contiguous substring.\<close>

fun py_in :: "pystr \<Rightarrow> pystr \<Rightarrow> bool" where
  "py_in sub [] = (sub = [])"
| "py_in sub (c # s) = (prefix sub (c # s) \<or> py_in sub s)"

text \<open>\<^verbatim>\<open>str(x)\<close> for a value that is a string or \<^verbatim>\<open>None\<close>.\<close>

fun str_py :: "pystr option \<Rightarrow> pystr" where
  "str_py None = py ''None''"
| "str_py (Some s) = s"

subsection \<open>Data\<close>

text \<open>
  What \<^verbatim>\<open>md_converter.convert\<close> returns: an object with a \<^verbatim>\<open>title\<close>, which may be
  \<^verbatim>\<open>None\<close>, and a \<^verbatim>\<open>text_content\<close> string. The converter's class is imported from
  \<^verbatim>\<open>scripts.mdconvert\<close>; only these two attributes are read here.
\<close>

record conversion_result =
  title :: "pystr option"
  text_content :: pystr

datatype MessageRole = SYSTEM | USER

text \<open>A message is the dictionary \<^verbatim>\<open>{"role": ..., "content": ...}\<close>.\<close>

record message =
  role :: MessageRole
  content :: pystr

text \<open>
  Exceptions. \<open>Exception msg\<close> is the \<^verbatim>\<open>raise Exception(msg)\<close> of the tool itself;
  \<open>ConversionError\<close> and \<open>ModelCallError\<close> are whatever the converter or the model
  raised, which the tool does not catch, with the raised exception's text;
  \<open>TypeError\<close> is Python's error for a call that leaves out a required argument.
\<close>

datatype error =
    Exception pystr
  | ConversionError pystr
  | ModelCallError pystr
  | TypeError

text \<open>
  The module-level collaborators and configuration the methods read:
  \<^verbatim>\<open>md_converter.convert\<close>, \<^verbatim>\<open>websurfer_model\<close> and \<^verbatim>\<open>text_limit\<close>. Either call
  may raise (\<open>Inl\<close>, with the exception's text) or return (\<open>Inr\<close>). The limit is a
  character count: the source only ever assigns it the literals 70000 and 20000.
\<close>

record env =
  convert :: "pystr \<Rightarrow> pystr + conversion_result"
  websurfer_model :: "message list \<Rightarrow> pystr + pystr"
  text_limit :: nat

text \<open>
  \<^verbatim>\<open>text_limit = 70000\<close>, then \<^verbatim>\<open>if USE_OPEN_MODELS: text_limit = 20000\<close>; the source
  sets \<^verbatim>\<open>USE_OPEN_MODELS = False\<close>.
\<close>

definition module_text_limit :: "bool \<Rightarrow> nat" where
  "module_text_limit use_open_models = (if use_open_models then 20000 else 70000)"

definition USE_OPEN_MODELS :: bool where
  "USE_OPEN_MODELS = False"

text \<open>
  What one call of a method did: the value it returned or the exception it raised, and
  the arguments of every call it made to the converter and to the model, in order.
\<close>

record outcome =
  result :: "error + pystr"
  convert_calls :: "pystr list"
  model_calls :: "message list list"

subsection \<open>The two methods\<close>

definition image_message :: pystr where
  "image_message = py ''Cannot use inspect_file_as_text tool with images: use visualizer instead!''"

definition UnsupportedInputError :: error where
  "UnsupportedInputError = Exception image_message"

text \<open>\<^verbatim>\<open>file_path[-4:] in ['.png', '.jpg']\<close>\<close>

definition is_image :: "pystr \<Rightarrow> bool" where
  "is_image file_path = (slice_last 4 file_path \<in> set [py ''.png'', py ''.jpg''])"

text \<open>\<^verbatim>\<open>".zip" in file_path\<close>\<close>

definition is_zip :: "pystr \<Rightarrow> bool" where
  "is_zip file_path = py_in (py ''.zip'') file_path"

text \<open>The \<^verbatim>\<open>messages\<close> list of \<^verbatim>\<open>forward_initial_exam_mode\<close>.\<close>

definition exam_messages :: "nat \<Rightarrow> conversion_result \<Rightarrow> pystr \<Rightarrow> message list" where
  "exam_messages limit res question =
     [\<lparr>role = SYSTEM,
       content = py ''Here is a file:'' @ [NL] @ py ''### ''
         @ str_py (title res)
         @ [NL, NL]
         @ slice_to limit (text_content res)\<rparr>,
      \<lparr>role = USER,
       content = question\<rparr>]"

text \<open>The \<^verbatim>\<open>messages\<close> list of \<^verbatim>\<open>forward\<close>.\<close>

definition caption_instruction :: pystr where
  "caption_instruction =
     py ''You will have to write a short caption for this file, then answer this question:''"

definition headings_instruction :: pystr where
  "headings_instruction =
     py ''Now answer the question below. Use these three headings: '1. Short answer', '2. Extremely detailed answer', '3. Additional Context on the document and question asked'.''"

definition forward_messages :: "nat \<Rightarrow> conversion_result \<Rightarrow> pystr \<Rightarrow> message list" where
  "forward_messages limit res question =
     [\<lparr>role = SYSTEM,
       content = caption_instruction @ question\<rparr>,
      \<lparr>role = USER,
       content = py ''Here is the complete file:'' @ [NL] @ py ''### ''
         @ str_py (title res)
         @ [NL, NL]
         @ slice_to limit (text_content res)\<rparr>,
      \<lparr>role = USER,
       content = headings_instruction @ question\<rparr>]"

text \<open>
  \<^verbatim>\<open>return websurfer_model(messages)\<close>: the call is recorded; what the model returns
  is returned, what it raises is raised.
\<close>

definition call_model :: "env \<Rightarrow> pystr \<Rightarrow> message list \<Rightarrow> outcome" where
  "call_model e file_path messages =
     \<lparr>result = (case websurfer_model e messages of
                  Inl x \<Rightarrow> Inl (ModelCallError x)
                | Inr answer \<Rightarrow> Inr answer),
      convert_calls = [file_path],
      model_calls = [messages]\<rparr>"

text \<open>A return or a raise after the converter was called and before any model call.\<close>

definition finish :: "pystr \<Rightarrow> error + pystr \<Rightarrow> outcome" where
  "finish file_path r = \<lparr>result = r, convert_calls = [file_path], model_calls = []\<rparr>"

text \<open>
  The body of \<^verbatim>\<open>forward_initial_exam_mode(self, file_path, question)\<close>, with
  \<open>question\<close> the value bound to the parameter (\<open>None\<close> for Python's \<^verbatim>\<open>None\<close>).
  \<^verbatim>\<open>not question\<close> is true for \<^verbatim>\<open>None\<close> and for the empty string.
\<close>

definition forward_initial_exam_mode :: "env \<Rightarrow> pystr \<Rightarrow> pystr option \<Rightarrow> outcome" where
  "forward_initial_exam_mode e file_path question =
     (case convert e file_path of
        Inl x \<Rightarrow> finish file_path (Inl (ConversionError x))
      | Inr res \<Rightarrow>
          if is_image file_path then finish file_path (Inl UnsupportedInputError)
          else if is_zip file_path then finish file_path (Inr (text_content res))
          else (case question of
                  None \<Rightarrow> finish file_path (Inr (text_content res))
                | Some q \<Rightarrow>
                    if q = [] then finish file_path (Inr (text_content res))
                    else call_model e file_path (exam_messages (text_limit e) res q)))"

text \<open>The body of \<^verbatim>\<open>forward(self, file_path, question: Optional[str] = None)\<close>.\<close>

definition forward :: "env \<Rightarrow> pystr \<Rightarrow> pystr option \<Rightarrow> outcome" where
  "forward e file_path question =
     (case convert e file_path of
        Inl x \<Rightarrow> finish file_path (Inl (ConversionError x))
      | Inr res \<Rightarrow>
          if is_image file_path then finish file_path (Inl UnsupportedInputError)
          else if is_zip file_path then finish file_path (Inr (text_content res))
          else (case question of
                  None \<Rightarrow> finish file_path (Inr (text_content res))
                | Some q \<Rightarrow>
                    if q = [] then finish file_path (Inr (text_content res))
                    else call_model e file_path (forward_messages (text_limit e) res q)))"

text \<open>
  Binding the arguments of a call. \<^verbatim>\<open>forward\<close> declares \<^verbatim>\<open>question\<close> with the
  default \<^verbatim>\<open>None\<close>; \<^verbatim>\<open>forward_initial_exam_mode\<close> declares it without a default, so a
  call that leaves it out raises \<^verbatim>\<open>TypeError\<close> before the body runs.
\<close>

datatype 'a argument = Omitted | Passed 'a

definition call_forward :: "env \<Rightarrow> pystr \<Rightarrow> pystr option argument \<Rightarrow> outcome" where
  "call_forward e file_path question =
     (case question of
        Omitted \<Rightarrow> forward e file_path None
      | Passed q \<Rightarrow> forward e file_path q)"

definition call_forward_initial_exam_mode ::
    "env \<Rightarrow> pystr \<Rightarrow> pystr option argument \<Rightarrow> outcome" where
  "call_forward_initial_exam_mode e file_path question =
     (case question of
        Omitted \<Rightarrow> \<lparr>result = Inl TypeError, convert_calls = [], model_calls = []\<rparr>
      | Passed q \<Rightarrow> forward_initial_exam_mode e file_path q)"

subsection \<open>Concrete collaborators for the examples\<close>

text \<open>
  The scenario of the specification: the converter returns the title \<^verbatim>\<open>Q3 Report\<close>
  and a text of 100000 letters \<^verbatim>\<open>A\<close>, the model answers with a fixed string, and the
  limit is the one the module sets.
\<close>

definition letter_A :: pychar where
  "letter_A = of_char CHR ''A''"

definition q3_result :: conversion_result where
  "q3_result = \<lparr>title = Some (py ''Q3 Report''), text_content = replicate 100000 letter_A\<rparr>"

definition q3_convert :: "pystr \<Rightarrow> pystr + conversion_result" where
  "q3_convert file_path = Inr q3_result"

definition fixed_model :: "message list \<Rightarrow> pystr + pystr" where
  "fixed_model messages = Inr (py ''The revenue is 42.'')"

definition q3_env :: env where
  "q3_env = \<lparr>convert = q3_convert, websurfer_model = fixed_model,
             text_limit = module_text_limit USE_OPEN_MODELS\<rparr>"

text \<open>A converter that raises on every path, as for a file that does not exist.\<close>

definition missing_file_convert :: "pystr \<Rightarrow> pystr + conversion_result" where
  "missing_file_convert file_path = Inl (py ''FileNotFoundError'')"

definition missing_file_env :: env where
  "missing_file_env = \<lparr>convert = missing_file_convert, websurfer_model = fixed_model,
                       text_limit = module_text_limit USE_OPEN_MODELS\<rparr>"

text \<open>A converter whose result has no title.\<close>

definition untitled_result :: conversion_result where
  "untitled_result = \<lparr>title = None, text_content = py ''alpha beta gamma''\<rparr>"

definition untitled_convert :: "pystr \<Rightarrow> pystr + conversion_result" where
  "untitled_convert file_path = Inr untitled_result"

definition untitled_env :: env where
  "untitled_env = \<lparr>convert = untitled_convert, websurfer_model = fixed_model, text_limit = 5\<rparr>"

text \<open>
  A short titled document with a limit of five characters, and a second document with
  the same title whose text agrees with the first on exactly those five characters.
\<close>

definition notes_result :: conversion_result where
  "notes_result = \<lparr>title = Some (py ''Notes''), text_content = py ''alpha beta gamma''\<rparr>"

definition notes_convert :: "pystr \<Rightarrow> pystr + conversion_result" where
  "notes_convert file_path = Inr notes_result"

definition notes_env :: env where
  "notes_env = \<lparr>convert = notes_convert, websurfer_model = fixed_model, text_limit = 5\<rparr>"

definition soup_result :: conversion_result where
  "soup_result = \<lparr>title = Some (py ''Notes''), text_content = py ''alphabet soup''\<rparr>"

definition soup_convert :: "pystr \<Rightarrow> pystr + conversion_result" where
  "soup_convert file_path = Inr soup_result"

definition soup_env :: env where
  "soup_env = \<lparr>convert = soup_convert, websurfer_model = fixed_model, text_limit = 5\<rparr>"

text \<open>Reading a prompt: the contents of the messages of one role, and counting a letter.\<close>

definition contents_of :: "MessageRole \<Rightarrow> message list \<Rightarrow> pystr list" where
  "contents_of r messages = map content (filter (\<lambda>m. role m = r) messages)"

definition count_char :: "char \<Rightarrow> pystr \<Rightarrow> nat" where
  "count_char c s = count_list s (of_char c)"

section \<open>Properties\<close>

subsection \<open>The tests on the path\<close>

lemma slice_last_eq_iff: "slice_last (length s) fp = s \<longleftrightarrow> suffix s fp"
proof
  assume h: "slice_last (length s) fp = s"
  have "fp = take (length fp - length s) fp @ drop (length fp - length s) fp" by simp
  with h show "suffix s fp" unfolding slice_last_def suffix_def by metis
next
  assume "suffix s fp"
  then obtain p where "fp = p @ s" by (auto simp: suffix_def)
  then show "slice_last (length s) fp = s" by (simp add: slice_last_def)
qed

lemma is_image_iff:
  "is_image fp \<longleftrightarrow> suffix (py ''.png'') fp \<or> suffix (py ''.jpg'') fp"
proof -
  have a: "length (py ''.png'') = 4" "length (py ''.jpg'') = 4" by (simp_all add: py_def)
  show ?thesis
    using slice_last_eq_iff[of "py ''.png''" fp] slice_last_eq_iff[of "py ''.jpg''" fp]
    by (simp add: is_image_def a)
qed

lemma py_in_iff: "py_in sub s \<longleftrightarrow> sublist sub s"
  by (induction s) (simp_all add: sublist_Cons_right)

lemma is_zip_iff: "is_zip fp \<longleftrightarrow> sublist (py ''.zip'') fp"
  by (simp add: is_zip_def py_in_iff)

subsection \<open>The branches of the two methods\<close>

lemma forward_conversion_raises:
  "convert e fp = Inl x \<Longrightarrow> forward e fp q = finish fp (Inl (ConversionError x))"
  by (simp add: forward_def)

lemma exam_conversion_raises:
  "convert e fp = Inl x \<Longrightarrow>
   forward_initial_exam_mode e fp q = finish fp (Inl (ConversionError x))"
  by (simp add: forward_initial_exam_mode_def)

lemma forward_image:
  "convert e fp = Inr res \<Longrightarrow> is_image fp \<Longrightarrow>
   forward e fp q = finish fp (Inl UnsupportedInputError)"
  by (simp add: forward_def)

lemma exam_image:
  "convert e fp = Inr res \<Longrightarrow> is_image fp \<Longrightarrow>
   forward_initial_exam_mode e fp q = finish fp (Inl UnsupportedInputError)"
  by (simp add: forward_initial_exam_mode_def)

lemma forward_zip:
  "convert e fp = Inr res \<Longrightarrow> \<not> is_image fp \<Longrightarrow> is_zip fp \<Longrightarrow>
   forward e fp q = finish fp (Inr (text_content res))"
  by (simp add: forward_def)

lemma exam_zip:
  "convert e fp = Inr res \<Longrightarrow> \<not> is_image fp \<Longrightarrow> is_zip fp \<Longrightarrow>
   forward_initial_exam_mode e fp q = finish fp (Inr (text_content res))"
  by (simp add: forward_initial_exam_mode_def)

lemma forward_no_question:
  "convert e fp = Inr res \<Longrightarrow> \<not> is_image fp \<Longrightarrow> q = None \<or> q = Some [] \<Longrightarrow>
   forward e fp q = finish fp (Inr (text_content res))"
  by (auto simp: forward_def)

lemma exam_no_question:
  "convert e fp = Inr res \<Longrightarrow> \<not> is_image fp \<Longrightarrow> q = None \<or> q = Some [] \<Longrightarrow>
   forward_initial_exam_mode e fp q = finish fp (Inr (text_content res))"
  by (auto simp: forward_initial_exam_mode_def)

lemma forward_asks:
  "convert e fp = Inr res \<Longrightarrow> \<not> is_image fp \<Longrightarrow> \<not> is_zip fp \<Longrightarrow> q \<noteq> [] \<Longrightarrow>
   forward e fp (Some q) = call_model e fp (forward_messages (text_limit e) res q)"
  by (simp add: forward_def)

lemma exam_asks:
  "convert e fp = Inr res \<Longrightarrow> \<not> is_image fp \<Longrightarrow> \<not> is_zip fp \<Longrightarrow> q \<noteq> [] \<Longrightarrow>
   forward_initial_exam_mode e fp (Some q) =
     call_model e fp (exam_messages (text_limit e) res q)"
  by (simp add: forward_initial_exam_mode_def)

lemma forward_silent:
  "is_image fp \<or> is_zip fp \<or> q = None \<or> q = Some [] \<Longrightarrow> model_calls (forward e fp q) = []"
  by (auto simp: forward_def finish_def split: sum.splits)

lemma exam_silent:
  "is_image fp \<or> is_zip fp \<or> q = None \<or> q = Some [] \<Longrightarrow>
   model_calls (forward_initial_exam_mode e fp q) = []"
  by (auto simp: forward_initial_exam_mode_def finish_def split: sum.splits)

lemma example_converters:
  "convert q3_env fp = Inr q3_result"
  "convert missing_file_env fp = Inl (py ''FileNotFoundError'')"
  "convert untitled_env fp = Inr untitled_result"
  by (simp_all add: q3_env_def q3_convert_def missing_file_env_def missing_file_convert_def
      untitled_env_def untitled_convert_def)

lemma example_converters2:
  "convert notes_env fp = Inr notes_result"
  "convert soup_env fp = Inr soup_result"
  by (simp_all add: notes_env_def notes_convert_def soup_env_def soup_convert_def)

lemma count_list_replicate: "count_list (replicate n x) y = (if x = y then n else 0)"
  by (induction n) auto

text \<open>
  An extension is a dot followed by characters other than the dot. A path with an
  extension other than \<^verbatim>\<open>.png\<close> and \<^verbatim>\<open>.jpg\<close> does not end in either of the two.
\<close>

lemma other_extension_not_suffix:
  assumes ext: "suffix (py ''.'' @ name) fp" and nodot: "of_char CHR ''.'' \<notin> set name"
    and lit: "lit = py ''.'' @ rest" and rest: "of_char CHR ''.'' \<notin> set rest"
    and ne: "py ''.'' @ name \<noteq> lit"
  shows "\<not> suffix lit fp"
proof
  assume "suffix lit fp"
  with ext consider "suffix (py ''.'' @ name) lit" | "suffix lit (py ''.'' @ name)"
    using suffix_same_cases by blast
  then show False
  proof cases
    case 1
    then obtain p where p: "py ''.'' @ rest = p @ py ''.'' @ name"
      by (auto simp: suffix_def lit)
    show False
    proof (cases p)
      case Nil
      with p ne lit show False by simp
    next
      case (Cons a p')
      with p have "rest = p' @ py ''.'' @ name" by (simp add: py_def)
      with rest show False by (simp add: py_def)
    qed
  next
    case 2
    then obtain p where p: "py ''.'' @ name = p @ py ''.'' @ rest"
      by (auto simp: suffix_def lit)
    show False
    proof (cases p)
      case Nil
      with p ne lit show False by simp
    next
      case (Cons a p')
      with p have "name = p' @ py ''.'' @ rest" by (simp add: py_def)
      with nodot show False by (simp add: py_def)
    qed
  qed
qed

lemma other_extension_not_image:
  assumes "suffix (py ''.'' @ name) fp" and "of_char CHR ''.'' \<notin> set name"
    and "py ''.'' @ name \<noteq> py ''.png''" and "py ''.'' @ name \<noteq> py ''.jpg''"
  shows "\<not> is_image fp"
proof -
  have "\<not> suffix (py ''.png'') fp"
    by (rule other_extension_not_suffix[OF assms(1,2), where rest = "py ''png''"])
      (simp_all add: py_def assms(3)[unfolded py_def, simplified])
  moreover have "\<not> suffix (py ''.jpg'') fp"
    by (rule other_extension_not_suffix[OF assms(1,2), where rest = "py ''jpg''"])
      (simp_all add: py_def assms(4)[unfolded py_def, simplified])
  ultimately show ?thesis by (simp add: is_image_iff)
qed

lemma result_call_model_not_image_error:
  "result (call_model e fp ms) \<noteq> Inl UnsupportedInputError"
  by (simp add: call_model_def UnsupportedInputError_def split: sum.splits)

text \<open>Evaluating the tests on the paths of the examples.\<close>

lemma example_paths:
  "is_image (py ''photo.png'')"
  "is_image (py ''photo.jpg'')"
  "is_image (py ''archive.zip.png'')"
  "is_image (py ''archive.zip.jpg'')"
  "is_zip (py ''archive.zip.png'')"
  "is_zip (py ''archive.zip.jpg'')"
  "is_zip (py ''archive.zip'')"
  "\<not> is_image (py ''archive.zip'')"
  "is_zip (py ''not.zipped.txt'')"
  "\<not> is_image (py ''not.zipped.txt'')"
  "\<not> is_image (py ''report.pdf'')"
  "\<not> is_zip (py ''report.pdf'')"
  "\<not> is_image (py ''scan.jpeg'')"
  "\<not> is_zip (py ''scan.jpeg'')"
  "\<not> is_image (py ''anim.gif'')"
  "\<not> is_zip (py ''anim.gif'')"
  "\<not> is_image (py ''pics.zip.gif'')"
  "is_zip (py ''pics.zip.gif'')"
  by (simp_all add: is_image_def is_zip_def slice_last_def py_def)

subsection \<open>Image paths\<close>

text \<open>
  C9. The image test comes before the archive test in both methods: for a path that
  contains \<^verbatim>\<open>.zip\<close> and ends in \<^verbatim>\<open>.png\<close> or \<^verbatim>\<open>.jpg\<close>, once the converter has
  returned, both methods raise the image exception and do not return the text content.
\<close>

theorem image_check_precedes_zip_check:
  assumes "sublist (py ''.zip'') fp"
    and "suffix (py ''.png'') fp \<or> suffix (py ''.jpg'') fp"
    and "convert e fp = Inr res"
  shows "result (forward e fp q) = Inl UnsupportedInputError
       \<and> result (forward_initial_exam_mode e fp q) = Inl UnsupportedInputError
       \<and> result (forward e fp q) \<noteq> Inr (text_content res)
       \<and> result (forward_initial_exam_mode e fp q) \<noteq> Inr (text_content res)"
proof -
  from assms(2) have img: "is_image fp" by (simp add: is_image_iff)
  show ?thesis
    by (simp add: forward_image[OF assms(3) img] exam_image[OF assms(3) img] finish_def)
qed

theorem image_check_precedes_zip_check_witness:
  "sublist (py ''.zip'') (py ''archive.zip.png'')
   \<and> suffix (py ''.png'') (py ''archive.zip.png'')
   \<and> convert q3_env (py ''archive.zip.png'') = Inr q3_result
   \<and> result (forward q3_env (py ''archive.zip.png'') (Some (py ''summarize'')))
       = Inl UnsupportedInputError
   \<and> result (forward_initial_exam_mode q3_env (py ''archive.zip.png'') (Some (py ''summarize'')))
       = Inl UnsupportedInputError"
proof -
  have z: "sublist (py ''.zip'') (py ''archive.zip.png'')"
    using example_paths(5) by (simp only: is_zip_iff)
  have i: "suffix (py ''.png'') (py ''archive.zip.png'')"
    by (simp add: suffix_to_prefix py_def)
  have c: "convert q3_env (py ''archive.zip.png'') = Inr q3_result"
    by (simp add: q3_env_def q3_convert_def)
  from image_check_precedes_zip_check[OF z disjI1[OF i] c, of "Some (py ''summarize'')"]
  show ?thesis using z i c by simp
qed

text \<open>
  C1, as amended. For a path that ends in \<^verbatim>\<open>.png\<close> or \<^verbatim>\<open>.jpg\<close> and for every
  question value, both methods raise the image exception whenever the converter has
  returned a result; when the converter raises, its exception is what both methods
  raise, since the converter is called before the path is looked at.
\<close>

theorem image_rejected_once_converted:
  assumes "suffix (py ''.png'') fp \<or> suffix (py ''.jpg'') fp"
  shows "(\<forall>res. convert e fp = Inr res \<longrightarrow>
            result (forward e fp q) = Inl UnsupportedInputError
          \<and> result (forward_initial_exam_mode e fp q) = Inl UnsupportedInputError)
       \<and> (\<forall>x. convert e fp = Inl x \<longrightarrow>
            result (forward e fp q) = Inl (ConversionError x)
          \<and> result (forward_initial_exam_mode e fp q) = Inl (ConversionError x))"
proof -
  from assms have img: "is_image fp" by (simp add: is_image_iff)
  show ?thesis
    by (simp add: forward_image[OF _ img] exam_image[OF _ img]
        forward_conversion_raises exam_conversion_raises finish_def)
qed

theorem image_rejected_once_converted_witness:
  "suffix (py ''.jpg'') (py ''photo.jpg'')
   \<and> convert q3_env (py ''photo.jpg'') = Inr q3_result
   \<and> result (forward q3_env (py ''photo.jpg'') None) = Inl UnsupportedInputError
   \<and> result (forward_initial_exam_mode q3_env (py ''photo.jpg'') None)
       = Inl UnsupportedInputError
   \<and> convert missing_file_env (py ''photo.jpg'') = Inl (py ''FileNotFoundError'')
   \<and> result (forward missing_file_env (py ''photo.jpg'') None)
       = Inl (ConversionError (py ''FileNotFoundError''))
   \<and> result (forward_initial_exam_mode missing_file_env (py ''photo.jpg'') None)
       = Inl (ConversionError (py ''FileNotFoundError''))"
proof -
  have i: "suffix (py ''.jpg'') (py ''photo.jpg'')"
    by (simp add: suffix_to_prefix py_def)
  have c: "convert q3_env (py ''photo.jpg'') = Inr q3_result"
    by (simp add: q3_env_def q3_convert_def)
  have m: "convert missing_file_env (py ''photo.jpg'') = Inl (py ''FileNotFoundError'')"
    by (simp add: missing_file_env_def missing_file_convert_def)
  from image_rejected_once_converted[OF disjI2[OF i], of q3_env None]
    image_rejected_once_converted[OF disjI2[OF i], of missing_file_env None]
  show ?thesis using i c m by simp
qed

text \<open>
  C1 as stated fails where the converter raises: on \<^verbatim>\<open>photo.jpg\<close> with a converter
  that raises, both methods raise the converter's exception and not the image
  exception.
\<close>

theorem image_path_conversion_failure_counterexample:
  "suffix (py ''.jpg'') (py ''photo.jpg'')
   \<and> result (forward missing_file_env (py ''photo.jpg'') None)
       = Inl (ConversionError (py ''FileNotFoundError''))
   \<and> result (forward missing_file_env (py ''photo.jpg'') None) \<noteq> Inl UnsupportedInputError
   \<and> result (forward_initial_exam_mode missing_file_env (py ''photo.jpg'') None)
       = Inl (ConversionError (py ''FileNotFoundError''))
   \<and> result (forward_initial_exam_mode missing_file_env (py ''photo.jpg'') None)
       \<noteq> Inl UnsupportedInputError"
  by (simp add: suffix_to_prefix py_def forward_def forward_initial_exam_mode_def finish_def
      missing_file_env_def missing_file_convert_def UnsupportedInputError_def)

text \<open>
  C7, as amended. For a path that ends in \<^verbatim>\<open>.png\<close> and for every question, neither
  method ever calls the model, and both raise the image exception whenever the
  converter has returned a result.
\<close>

theorem png_never_reaches_model:
  assumes "suffix (py ''.png'') fp"
  shows "model_calls (forward e fp q) = []
       \<and> model_calls (forward_initial_exam_mode e fp q) = []
       \<and> (\<forall>res. convert e fp = Inr res \<longrightarrow>
            result (forward e fp q) = Inl UnsupportedInputError
          \<and> result (forward_initial_exam_mode e fp q) = Inl UnsupportedInputError)"
proof -
  from assms have img: "is_image fp" by (simp add: is_image_iff)
  show ?thesis
    by (simp add: forward_silent exam_silent img forward_image[OF _ img] exam_image[OF _ img]
        finish_def)
qed

theorem png_never_reaches_model_witness:
  "suffix (py ''.png'') (py ''photo.png'')
   \<and> convert q3_env (py ''photo.png'') = Inr q3_result
   \<and> model_calls (forward q3_env (py ''photo.png'') (Some (py ''What is shown?''))) = []
   \<and> model_calls (forward_initial_exam_mode q3_env (py ''photo.png'')
        (Some (py ''What is shown?''))) = []
   \<and> result (forward q3_env (py ''photo.png'') (Some (py ''What is shown?'')))
       = Inl UnsupportedInputError
   \<and> result (forward_initial_exam_mode q3_env (py ''photo.png'') (Some (py ''What is shown?'')))
       = Inl UnsupportedInputError"
proof -
  have i: "suffix (py ''.png'') (py ''photo.png'')"
    by (simp add: suffix_to_prefix py_def)
  from png_never_reaches_model[OF i, of q3_env "Some (py ''What is shown?'')"]
  show ?thesis using i by (simp add: example_converters)
qed

text \<open>
  C7 as stated fails where the converter raises: on \<^verbatim>\<open>photo.png\<close> with a question,
  both methods raise the converter's exception, not the image exception (and the model
  is not called).
\<close>

theorem png_conversion_failure_counterexample:
  "suffix (py ''.png'') (py ''photo.png'')
   \<and> forward missing_file_env (py ''photo.png'') (Some (py ''What is shown?''))
       = \<lparr>result = Inl (ConversionError (py ''FileNotFoundError'')),
          convert_calls = [py ''photo.png''], model_calls = []\<rparr>
   \<and> forward_initial_exam_mode missing_file_env (py ''photo.png'') (Some (py ''What is shown?''))
       = \<lparr>result = Inl (ConversionError (py ''FileNotFoundError'')),
          convert_calls = [py ''photo.png''], model_calls = []\<rparr>
   \<and> Inl (ConversionError (py ''FileNotFoundError'')) \<noteq> (Inl UnsupportedInputError :: error + pystr)"
proof -
  have i: "suffix (py ''.png'') (py ''photo.png'')"
    by (simp add: suffix_to_prefix py_def)
  show ?thesis
    using i
    by (simp add: forward_conversion_raises exam_conversion_raises example_converters
        finish_def UnsupportedInputError_def)
qed

subsection \<open>Archives and calls without a question\<close>

text \<open>
  C3, as amended. For a path that contains \<^verbatim>\<open>.zip\<close> anywhere, whatever the question,
  neither method calls the model; and when the path does not end in \<^verbatim>\<open>.png\<close> or
  \<^verbatim>\<open>.jpg\<close> and the converter has returned a result, both methods return exactly that
  result's text content.
\<close>

theorem zip_returns_text_content:
  assumes "sublist (py ''.zip'') fp"
  shows "model_calls (forward e fp q) = []
       \<and> model_calls (forward_initial_exam_mode e fp q) = []
       \<and> (\<forall>res. convert e fp = Inr res
              \<and> \<not> suffix (py ''.png'') fp \<and> \<not> suffix (py ''.jpg'') fp \<longrightarrow>
            result (forward e fp q) = Inr (text_content res)
          \<and> result (forward_initial_exam_mode e fp q) = Inr (text_content res))"
proof -
  from assms have zip: "is_zip fp" by (simp add: is_zip_iff)
  have "result (forward e fp q) = Inr (text_content res)
      \<and> result (forward_initial_exam_mode e fp q) = Inr (text_content res)"
    if c: "convert e fp = Inr res" and n: "\<not> is_image fp" for res
    by (simp add: forward_zip[OF c n zip] exam_zip[OF c n zip] finish_def)
  then show ?thesis
    by (simp add: forward_silent exam_silent zip is_image_iff)
qed

theorem zip_returns_text_content_witness:
  "sublist (py ''.zip'') (py ''not.zipped.txt'')
   \<and> convert q3_env (py ''not.zipped.txt'') = Inr q3_result
   \<and> model_calls (forward q3_env (py ''not.zipped.txt'') (Some (py ''summarize''))) = []
   \<and> model_calls (forward_initial_exam_mode q3_env (py ''not.zipped.txt'')
        (Some (py ''summarize''))) = []
   \<and> result (forward q3_env (py ''not.zipped.txt'') (Some (py ''summarize'')))
       = Inr (text_content q3_result)
   \<and> result (forward_initial_exam_mode q3_env (py ''not.zipped.txt'') (Some (py ''summarize'')))
       = Inr (text_content q3_result)"
proof -
  have z: "sublist (py ''.zip'') (py ''not.zipped.txt'')"
    using example_paths(9) by (simp only: is_zip_iff)
  have n: "\<not> suffix (py ''.png'') (py ''not.zipped.txt'')"
          "\<not> suffix (py ''.jpg'') (py ''not.zipped.txt'')"
    using example_paths(10) by (simp_all add: is_image_iff)
  from zip_returns_text_content[OF z, of q3_env "Some (py ''summarize'')"]
  show ?thesis using z n by (simp add: example_converters)
qed

text \<open>
  C3 as stated fails on a path that contains \<^verbatim>\<open>.zip\<close> and ends in \<^verbatim>\<open>.jpg\<close>: the
  image test comes first, so the image exception is raised and the text content is not
  returned.
\<close>

theorem zip_image_path_counterexample:
  "sublist (py ''.zip'') (py ''archive.zip.jpg'')
   \<and> convert q3_env (py ''archive.zip.jpg'') = Inr q3_result
   \<and> result (forward q3_env (py ''archive.zip.jpg'') (Some (py ''summarize'')))
       = Inl UnsupportedInputError
   \<and> result (forward_initial_exam_mode q3_env (py ''archive.zip.jpg'') (Some (py ''summarize'')))
       = Inl UnsupportedInputError
   \<and> (Inl UnsupportedInputError :: error + pystr) \<noteq> Inr (text_content q3_result)"
proof -
  have z: "sublist (py ''.zip'') (py ''archive.zip.jpg'')"
    using example_paths(6) by (simp only: is_zip_iff)
  show ?thesis
    using z
    by (simp add: forward_image[OF example_converters(1) example_paths(4)]
        exam_image[OF example_converters(1) example_paths(4)] example_converters finish_def)
qed

text \<open>
  C4, as amended. When the question is absent or empty, neither method calls the model;
  and when the path does not end in \<^verbatim>\<open>.png\<close> or \<^verbatim>\<open>.jpg\<close> and the converter has
  returned a result, both methods return exactly that result's text content, whatever
  its length and whatever the limit.
\<close>

theorem no_question_returns_text_content:
  assumes "q = None \<or> q = Some []"
  shows "model_calls (forward e fp q) = []
       \<and> model_calls (forward_initial_exam_mode e fp q) = []
       \<and> (\<forall>res. convert e fp = Inr res
              \<and> \<not> suffix (py ''.png'') fp \<and> \<not> suffix (py ''.jpg'') fp \<longrightarrow>
            result (forward e fp q) = Inr (text_content res)
          \<and> result (forward_initial_exam_mode e fp q) = Inr (text_content res))"
proof -
  have "result (forward e fp q) = Inr (text_content res)
      \<and> result (forward_initial_exam_mode e fp q) = Inr (text_content res)"
    if c: "convert e fp = Inr res" and n: "\<not> is_image fp" for res
    by (simp add: forward_no_question[OF c n assms] exam_no_question[OF c n assms] finish_def)
  then show ?thesis
    using assms by (simp add: forward_silent exam_silent is_image_iff)
qed

theorem no_question_returns_text_content_witness:
  "convert q3_env (py ''report.pdf'') = Inr q3_result
   \<and> text_limit q3_env = 70000
   \<and> length (text_content q3_result) = 100000
   \<and> model_calls (forward q3_env (py ''report.pdf'') None) = []
   \<and> model_calls (forward_initial_exam_mode q3_env (py ''report.pdf'') None) = []
   \<and> result (forward q3_env (py ''report.pdf'') None) = Inr (replicate 100000 letter_A)
   \<and> result (forward_initial_exam_mode q3_env (py ''report.pdf'') None)
       = Inr (replicate 100000 letter_A)
   \<and> result (forward q3_env (py ''report.pdf'') (Some [])) = Inr (replicate 100000 letter_A)
   \<and> result (forward_initial_exam_mode q3_env (py ''report.pdf'') (Some []))
       = Inr (replicate 100000 letter_A)"
proof -
  have n: "\<not> suffix (py ''.png'') (py ''report.pdf'')"
          "\<not> suffix (py ''.jpg'') (py ''report.pdf'')"
    using example_paths(11) by (simp_all add: is_image_iff)
  have l: "text_limit q3_env = 70000"
    by (simp add: q3_env_def module_text_limit_def USE_OPEN_MODELS_def)
  have t: "text_content q3_result = replicate 100000 letter_A"
    by (simp add: q3_result_def)
  from no_question_returns_text_content[of None q3_env "py ''report.pdf''"]
    no_question_returns_text_content[of "Some []" q3_env "py ''report.pdf''"]
  show ?thesis using n l t by (simp add: example_converters)
qed

text \<open>
  C4 as stated fails on an image path: on \<^verbatim>\<open>photo.png\<close> without a question, both
  methods raise the image exception and do not return the text content.
\<close>

theorem no_question_image_path_counterexample:
  "convert q3_env (py ''photo.png'') = Inr q3_result
   \<and> result (forward q3_env (py ''photo.png'') None) = Inl UnsupportedInputError
   \<and> result (forward_initial_exam_mode q3_env (py ''photo.png'') None)
       = Inl UnsupportedInputError
   \<and> (Inl UnsupportedInputError :: error + pystr) \<noteq> Inr (text_content q3_result)"
  by (simp add: forward_image[OF example_converters(1) example_paths(1)]
      exam_image[OF example_converters(1) example_paths(1)] example_converters finish_def)

subsection \<open>The prompt\<close>

text \<open>
  C10. When the conversion result has no title and a question is supplied for a path
  that is neither an image nor an archive, building the prompt does not fail: the title
  is turned into the text \<^verbatim>\<open>None\<close>, which stands in the title position of the message
  that carries the file, the model is called once with that prompt, and the method
  returns what the model returns (or raises what the model raises).
\<close>

theorem missing_title_is_written_as_None:
  assumes "convert e fp = Inr res" and "title res = None"
    and "\<not> suffix (py ''.png'') fp" and "\<not> suffix (py ''.jpg'') fp"
    and "\<not> sublist (py ''.zip'') fp" and "q \<noteq> []"
  shows "model_calls (forward e fp (Some q)) =
           [[\<lparr>role = SYSTEM, content = caption_instruction @ q\<rparr>,
             \<lparr>role = USER,
              content = py ''Here is the complete file:'' @ [NL] @ py ''### None'' @ [NL, NL]
                @ take (text_limit e) (text_content res)\<rparr>,
             \<lparr>role = USER, content = headings_instruction @ q\<rparr>]]
       \<and> model_calls (forward_initial_exam_mode e fp (Some q)) =
           [[\<lparr>role = SYSTEM,
              content = py ''Here is a file:'' @ [NL] @ py ''### None'' @ [NL, NL]
                @ take (text_limit e) (text_content res)\<rparr>,
             \<lparr>role = USER, content = q\<rparr>]]
       \<and> result (forward e fp (Some q)) =
           (case websurfer_model e (forward_messages (text_limit e) res q) of
              Inl x \<Rightarrow> Inl (ModelCallError x) | Inr answer \<Rightarrow> Inr answer)
       \<and> result (forward_initial_exam_mode e fp (Some q)) =
           (case websurfer_model e (exam_messages (text_limit e) res q) of
              Inl x \<Rightarrow> Inl (ModelCallError x) | Inr answer \<Rightarrow> Inr answer)"
proof -
  have n: "\<not> is_image fp" using assms(3,4) by (simp add: is_image_iff)
  have z: "\<not> is_zip fp" using assms(5) by (simp add: is_zip_iff)
  have lit: "py ''### None'' = py ''### '' @ py ''None''" by (simp add: py_def)
  show ?thesis
    by (simp add: forward_asks[OF assms(1) n z assms(6)] exam_asks[OF assms(1) n z assms(6)]
        call_model_def forward_messages_def exam_messages_def slice_to_def assms(2) lit)
qed

theorem missing_title_is_written_as_None_witness:
  "convert untitled_env (py ''report.pdf'') = Inr untitled_result
   \<and> title untitled_result = None
   \<and> model_calls (forward untitled_env (py ''report.pdf'') (Some (py ''What?''))) =
       [[\<lparr>role = SYSTEM, content = caption_instruction @ py ''What?''\<rparr>,
         \<lparr>role = USER,
          content = py ''Here is the complete file:'' @ [NL] @ py ''### None'' @ [NL, NL]
            @ py ''alpha''\<rparr>,
         \<lparr>role = USER, content = headings_instruction @ py ''What?''\<rparr>]]
   \<and> model_calls (forward_initial_exam_mode untitled_env (py ''report.pdf'')
        (Some (py ''What?''))) =
       [[\<lparr>role = SYSTEM,
          content = py ''Here is a file:'' @ [NL] @ py ''### None'' @ [NL, NL] @ py ''alpha''\<rparr>,
         \<lparr>role = USER, content = py ''What?''\<rparr>]]
   \<and> result (forward untitled_env (py ''report.pdf'') (Some (py ''What?'')))
       = Inr (py ''The revenue is 42.'')
   \<and> result (forward_initial_exam_mode untitled_env (py ''report.pdf'') (Some (py ''What?'')))
       = Inr (py ''The revenue is 42.'')"
proof -
  have n: "\<not> suffix (py ''.png'') (py ''report.pdf'')"
          "\<not> suffix (py ''.jpg'') (py ''report.pdf'')"
    using example_paths(11) by (simp_all add: is_image_iff)
  have z: "\<not> sublist (py ''.zip'') (py ''report.pdf'')"
    using example_paths(12) by (simp add: is_zip_iff)
  have t: "title untitled_result = None" by (simp add: untitled_result_def)
  have q: "py ''What?'' \<noteq> []" by (simp add: py_def)
  have m: "websurfer_model untitled_env ms = Inr (py ''The revenue is 42.'')" for ms
    by (simp add: untitled_env_def fixed_model_def)
  have l: "take (text_limit untitled_env) (text_content untitled_result) = py ''alpha''"
    by (simp add: untitled_env_def untitled_result_def py_def)
  from missing_title_is_written_as_None[OF example_converters(3) t n z q]
  show ?thesis using t by (simp add: example_converters l m)
qed

text \<open>
  C5. When a question is supplied and the path is neither an image nor an archive, each
  method calls the model once, and the prompt has one message whose content is a fixed
  heading, the title, two line feeds and the first \<open>text_limit\<close> characters of the text
  content: a prefix of the text, the whole text when it is not longer than the limit.
  Nothing of the text beyond that prefix reaches the model: two conversion results with
  the same title that agree on the prefix give the same outcome, prompt included.
\<close>

theorem prompt_carries_title_and_prefix:
  assumes "convert e fp = Inr res"
    and "\<not> suffix (py ''.png'') fp" and "\<not> suffix (py ''.jpg'') fp"
    and "\<not> sublist (py ''.zip'') fp" and "q \<noteq> []"
  shows "model_calls (forward e fp (Some q)) = [forward_messages (text_limit e) res q]
       \<and> model_calls (forward_initial_exam_mode e fp (Some q))
           = [exam_messages (text_limit e) res q]
       \<and> map content (forward_messages (text_limit e) res q) =
           [caption_instruction @ q,
            py ''Here is the complete file:'' @ [NL] @ py ''### '' @ str_py (title res)
              @ [NL, NL] @ take (text_limit e) (text_content res),
            headings_instruction @ q]
       \<and> map content (exam_messages (text_limit e) res q) =
           [py ''Here is a file:'' @ [NL] @ py ''### '' @ str_py (title res)
              @ [NL, NL] @ take (text_limit e) (text_content res),
            q]
       \<and> prefix (take (text_limit e) (text_content res)) (text_content res)
       \<and> length (take (text_limit e) (text_content res))
           = min (text_limit e) (length (text_content res))
       \<and> (length (text_content res) \<le> text_limit e \<longrightarrow>
            take (text_limit e) (text_content res) = text_content res)
       \<and> (convert e2 fp = Inr res2 \<and> websurfer_model e2 = websurfer_model e
            \<and> text_limit e2 = text_limit e \<and> title res2 = title res
            \<and> take (text_limit e) (text_content res2) = take (text_limit e) (text_content res)
          \<longrightarrow> forward e2 fp (Some q) = forward e fp (Some q)
            \<and> forward_initial_exam_mode e2 fp (Some q)
                = forward_initial_exam_mode e fp (Some q))"
proof -
  have n: "\<not> is_image fp" using assms(2,3) by (simp add: is_image_iff)
  have z: "\<not> is_zip fp" using assms(4) by (simp add: is_zip_iff)
  note f = forward_asks[OF _ n z assms(5)] and x = exam_asks[OF _ n z assms(5)]
  have calls: "model_calls (forward e fp (Some q)) = [forward_messages (text_limit e) res q]"
    "model_calls (forward_initial_exam_mode e fp (Some q)) = [exam_messages (text_limit e) res q]"
    by (simp_all add: f[OF assms(1)] x[OF assms(1)] call_model_def)
  have shape: "map content (forward_messages (text_limit e) res q) =
           [caption_instruction @ q,
            py ''Here is the complete file:'' @ [NL] @ py ''### '' @ str_py (title res)
              @ [NL, NL] @ take (text_limit e) (text_content res),
            headings_instruction @ q]"
    "map content (exam_messages (text_limit e) res q) =
           [py ''Here is a file:'' @ [NL] @ py ''### '' @ str_py (title res)
              @ [NL, NL] @ take (text_limit e) (text_content res),
            q]"
    by (simp_all add: forward_messages_def exam_messages_def slice_to_def)
  have same: "forward e2 fp (Some q) = forward e fp (Some q)
            \<and> forward_initial_exam_mode e2 fp (Some q) = forward_initial_exam_mode e fp (Some q)"
    if "convert e2 fp = Inr res2" "websurfer_model e2 = websurfer_model e"
      "text_limit e2 = text_limit e" "title res2 = title res"
      "take (text_limit e) (text_content res2) = take (text_limit e) (text_content res)"
    using that
    by (simp add: f[OF assms(1)] x[OF assms(1)] f[OF that(1)] x[OF that(1)] call_model_def
        forward_messages_def exam_messages_def slice_to_def)
  have pre: "prefix (take (text_limit e) (text_content res)) (text_content res)"
    by (rule take_is_prefix)
  from calls shape same pre show ?thesis by simp
qed

theorem prompt_carries_title_and_prefix_witness:
  "convert notes_env (py ''report.pdf'') = Inr notes_result
   \<and> title notes_result = Some (py ''Notes'')
   \<and> text_content notes_result = py ''alpha beta gamma''
   \<and> text_limit notes_env = 5
   \<and> model_calls (forward notes_env (py ''report.pdf'') (Some (py ''What?''))) =
       [[\<lparr>role = SYSTEM, content = caption_instruction @ py ''What?''\<rparr>,
         \<lparr>role = USER,
          content = py ''Here is the complete file:'' @ [NL] @ py ''### '' @ py ''Notes''
            @ [NL, NL] @ py ''alpha''\<rparr>,
         \<lparr>role = USER, content = headings_instruction @ py ''What?''\<rparr>]]
   \<and> model_calls (forward_initial_exam_mode notes_env (py ''report.pdf'')
        (Some (py ''What?''))) =
       [[\<lparr>role = SYSTEM,
          content = py ''Here is a file:'' @ [NL] @ py ''### '' @ py ''Notes''
            @ [NL, NL] @ py ''alpha''\<rparr>,
         \<lparr>role = USER, content = py ''What?''\<rparr>]]
   \<and> text_content soup_result = py ''alphabet soup''
   \<and> forward soup_env (py ''report.pdf'') (Some (py ''What?''))
       = forward notes_env (py ''report.pdf'') (Some (py ''What?''))
   \<and> forward_initial_exam_mode soup_env (py ''report.pdf'') (Some (py ''What?''))
       = forward_initial_exam_mode notes_env (py ''report.pdf'') (Some (py ''What?''))"
proof -
  have n: "\<not> suffix (py ''.png'') (py ''report.pdf'')"
          "\<not> suffix (py ''.jpg'') (py ''report.pdf'')"
    using example_paths(11) by (simp_all add: is_image_iff)
  have z: "\<not> sublist (py ''.zip'') (py ''report.pdf'')"
    using example_paths(12) by (simp add: is_zip_iff)
  have q: "py ''What?'' \<noteq> []" by (simp add: py_def)
  have d: "title notes_result = Some (py ''Notes'')"
    "text_content notes_result = py ''alpha beta gamma''"
    "text_limit notes_env = 5"
    "title soup_result = Some (py ''Notes'')"
    "text_content soup_result = py ''alphabet soup''"
    "text_limit soup_env = 5"
    "websurfer_model soup_env = websurfer_model notes_env"
    by (simp_all add: notes_result_def notes_env_def soup_result_def soup_env_def)
  have t: "take 5 (py ''alpha beta gamma'') = py ''alpha''"
    "take 5 (py ''alphabet soup'') = py ''alpha''"
    by (simp_all add: py_def)
  from prompt_carries_title_and_prefix[OF example_converters2(1) n z q,
      where ?e2.0 = soup_env and ?res2.0 = soup_result]
  show ?thesis
    by (simp add: example_converters2 d t forward_messages_def exam_messages_def slice_to_def)
qed

text \<open>
  C2, as amended. When a question is supplied and the path is neither an image nor an
  archive, \<^verbatim>\<open>forward_initial_exam_mode\<close> sends a system message with the title and
  the truncated text, then a user message with the question. \<^verbatim>\<open>forward\<close> sends a
  system message with a caption instruction and the question, a user message with the
  title and the truncated text, and a user message with the three headings and the
  question. In the scenario (title \<^verbatim>\<open>Q3 Report\<close>, 100000 letters \<^verbatim>\<open>A\<close>, limit 70000)
  the message that carries the file has exactly 70000 letters \<^verbatim>\<open>A\<close> in both methods.
\<close>

theorem prompt_messages:
  assumes "convert e fp = Inr res"
    and "\<not> suffix (py ''.png'') fp" and "\<not> suffix (py ''.jpg'') fp"
    and "\<not> sublist (py ''.zip'') fp" and "q \<noteq> []"
  shows "model_calls (forward_initial_exam_mode e fp (Some q)) =
           [[\<lparr>role = SYSTEM,
              content = py ''Here is a file:'' @ [NL] @ py ''### '' @ str_py (title res)
                @ [NL, NL] @ take (text_limit e) (text_content res)\<rparr>,
             \<lparr>role = USER, content = q\<rparr>]]
       \<and> model_calls (forward e fp (Some q)) =
           [[\<lparr>role = SYSTEM, content = caption_instruction @ q\<rparr>,
             \<lparr>role = USER,
              content = py ''Here is the complete file:'' @ [NL] @ py ''### ''
                @ str_py (title res)
                @ [NL, NL] @ take (text_limit e) (text_content res)\<rparr>,
             \<lparr>role = USER, content = headings_instruction @ q\<rparr>]]
       \<and> sublist (py ''Short answer'') headings_instruction
       \<and> sublist (py ''Extremely detailed answer'') headings_instruction
       \<and> sublist (py ''Additional Context'') headings_instruction
       \<and> (text_limit e = 70000 \<and> title res = Some (py ''Q3 Report'')
            \<and> text_content res = replicate 100000 letter_A \<longrightarrow>
            map (count_char CHR ''A'')
              (contents_of SYSTEM (hd (model_calls (forward_initial_exam_mode e fp (Some q)))))
              = [70000]
          \<and> count_char CHR ''A'' (content (hd (model_calls (forward e fp (Some q))) ! 1))
              = 70000)"
proof -
  have n: "\<not> is_image fp" using assms(2,3) by (simp add: is_image_iff)
  have z: "\<not> is_zip fp" using assms(4) by (simp add: is_zip_iff)
  note f = forward_asks[OF assms(1) n z assms(5)] and x = exam_asks[OF assms(1) n z assms(5)]
  have exam: "model_calls (forward_initial_exam_mode e fp (Some q)) =
           [[\<lparr>role = SYSTEM,
              content = py ''Here is a file:'' @ [NL] @ py ''### '' @ str_py (title res)
                @ [NL, NL] @ take (text_limit e) (text_content res)\<rparr>,
             \<lparr>role = USER, content = q\<rparr>]]"
    by (simp add: x call_model_def exam_messages_def slice_to_def)
  have fwd: "model_calls (forward e fp (Some q)) =
           [[\<lparr>role = SYSTEM, content = caption_instruction @ q\<rparr>,
             \<lparr>role = USER,
              content = py ''Here is the complete file:'' @ [NL] @ py ''### ''
                @ str_py (title res)
                @ [NL, NL] @ take (text_limit e) (text_content res)\<rparr>,
             \<lparr>role = USER, content = headings_instruction @ q\<rparr>]]"
    by (simp add: f call_model_def forward_messages_def slice_to_def)
  have heads: "sublist (py ''Short answer'') headings_instruction"
    "sublist (py ''Extremely detailed answer'') headings_instruction"
    "sublist (py ''Additional Context'') headings_instruction"
    by (simp_all add: py_in_iff[symmetric] headings_instruction_def py_def)
  have scen: "map (count_char CHR ''A'')
              (contents_of SYSTEM (hd (model_calls (forward_initial_exam_mode e fp (Some q)))))
              = [70000]
          \<and> count_char CHR ''A'' (content (hd (model_calls (forward e fp (Some q))) ! 1))
              = 70000"
    if "text_limit e = 70000" "title res = Some (py ''Q3 Report'')"
      "text_content res = replicate 100000 letter_A"
    by (simp add: exam fwd that contents_of_def count_char_def py_def NL_def letter_A_def
        count_list_replicate)
  from exam fwd heads scen show ?thesis by simp
qed

theorem prompt_messages_witness:
  "convert q3_env (py ''report.pdf'') = Inr q3_result
   \<and> text_limit q3_env = 70000
   \<and> title q3_result = Some (py ''Q3 Report'')
   \<and> text_content q3_result = replicate 100000 letter_A
   \<and> model_calls (forward_initial_exam_mode q3_env (py ''report.pdf'')
        (Some (py ''What is the revenue?''))) =
       [[\<lparr>role = SYSTEM,
          content = py ''Here is a file:'' @ [NL] @ py ''### '' @ py ''Q3 Report''
            @ [NL, NL] @ replicate 70000 letter_A\<rparr>,
         \<lparr>role = USER, content = py ''What is the revenue?''\<rparr>]]
   \<and> model_calls (forward q3_env (py ''report.pdf'') (Some (py ''What is the revenue?''))) =
       [[\<lparr>role = SYSTEM, content = caption_instruction @ py ''What is the revenue?''\<rparr>,
         \<lparr>role = USER,
          content = py ''Here is the complete file:'' @ [NL] @ py ''### '' @ py ''Q3 Report''
            @ [NL, NL] @ replicate 70000 letter_A\<rparr>,
         \<lparr>role = USER, content = headings_instruction @ py ''What is the revenue?''\<rparr>]]
   \<and> map (count_char CHR ''A'')
        (contents_of SYSTEM (hd (model_calls (forward_initial_exam_mode q3_env (py ''report.pdf'')
          (Some (py ''What is the revenue?'')))))) = [70000]
   \<and> count_char CHR ''A'' (content (hd (model_calls (forward q3_env (py ''report.pdf'')
        (Some (py ''What is the revenue?'')))) ! 1)) = 70000"
proof -
  have n: "\<not> suffix (py ''.png'') (py ''report.pdf'')"
          "\<not> suffix (py ''.jpg'') (py ''report.pdf'')"
    using example_paths(11) by (simp_all add: is_image_iff)
  have z: "\<not> sublist (py ''.zip'') (py ''report.pdf'')"
    using example_paths(12) by (simp add: is_zip_iff)
  have q: "py ''What is the revenue?'' \<noteq> []" by (simp add: py_def)
  have d: "text_limit q3_env = 70000"
    "title q3_result = Some (py ''Q3 Report'')"
    "text_content q3_result = replicate 100000 letter_A"
    by (simp_all add: q3_env_def q3_result_def module_text_limit_def USE_OPEN_MODELS_def)
  note T = prompt_messages[OF example_converters(1) n z q]
  have scen: "map (count_char CHR ''A'')
        (contents_of SYSTEM (hd (model_calls (forward_initial_exam_mode q3_env (py ''report.pdf'')
          (Some (py ''What is the revenue?'')))))) = [70000]
   \<and> count_char CHR ''A'' (content (hd (model_calls (forward q3_env (py ''report.pdf'')
        (Some (py ''What is the revenue?'')))) ! 1)) = 70000"
    using T d by blast
  have calls: "model_calls (forward_initial_exam_mode q3_env (py ''report.pdf'')
        (Some (py ''What is the revenue?''))) =
       [[\<lparr>role = SYSTEM,
          content = py ''Here is a file:'' @ [NL] @ py ''### '' @ py ''Q3 Report''
            @ [NL, NL] @ replicate 70000 letter_A\<rparr>,
         \<lparr>role = USER, content = py ''What is the revenue?''\<rparr>]]"
    "model_calls (forward q3_env (py ''report.pdf'') (Some (py ''What is the revenue?''))) =
       [[\<lparr>role = SYSTEM, content = caption_instruction @ py ''What is the revenue?''\<rparr>,
         \<lparr>role = USER,
          content = py ''Here is the complete file:'' @ [NL] @ py ''### '' @ py ''Q3 Report''
            @ [NL, NL] @ replicate 70000 letter_A\<rparr>,
         \<lparr>role = USER, content = headings_instruction @ py ''What is the revenue?''\<rparr>]]"
    using T by (simp_all add: d)
  from scen calls d show ?thesis by (simp add: example_converters)
qed

text \<open>
  C2 as stated fails for \<^verbatim>\<open>forward\<close>: in the scenario its only system message is the
  caption instruction followed by the question; it holds neither the title nor any
  letter \<^verbatim>\<open>A\<close> of the text.
\<close>

theorem forward_system_message_counterexample:
  "model_calls (forward q3_env (py ''report.pdf'') (Some (py ''What is the revenue?'')))
     = [forward_messages 70000 q3_result (py ''What is the revenue?'')]
   \<and> contents_of SYSTEM (forward_messages 70000 q3_result (py ''What is the revenue?''))
     = [caption_instruction @ py ''What is the revenue?'']
   \<and> count_char CHR ''A'' (caption_instruction @ py ''What is the revenue?'') = 0
   \<and> \<not> sublist (py ''Q3 Report'') (caption_instruction @ py ''What is the revenue?'')"
proof -
  have q: "py ''What is the revenue?'' \<noteq> []" by (simp add: py_def)
  have l: "text_limit q3_env = 70000"
    by (simp add: q3_env_def module_text_limit_def USE_OPEN_MODELS_def)
  have a: "model_calls (forward q3_env (py ''report.pdf'') (Some (py ''What is the revenue?'')))
     = [forward_messages 70000 q3_result (py ''What is the revenue?'')]"
    by (simp add: forward_asks[OF example_converters(1) example_paths(11) example_paths(12) q]
        call_model_def l)
  have b: "contents_of SYSTEM (forward_messages 70000 q3_result (py ''What is the revenue?''))
     = [caption_instruction @ py ''What is the revenue?'']"
    by (simp add: contents_of_def forward_messages_def)
  have c: "count_char CHR ''A'' (caption_instruction @ py ''What is the revenue?'') = 0"
    by (simp add: count_char_def caption_instruction_def py_def)
  have d: "\<not> sublist (py ''Q3 Report'') (caption_instruction @ py ''What is the revenue?'')"
    by (simp add: py_in_iff[symmetric] caption_instruction_def py_def)
  from a b c d show ?thesis by simp
qed

subsection \<open>Extensions the image test does not know\<close>

text \<open>
  C8, as amended. The image test compares the last four characters of the path with
  \<^verbatim>\<open>.png\<close> and \<^verbatim>\<open>.jpg\<close> only. A path whose extension (a dot followed by characters
  other than the dot) is any other one, of whatever length, such as \<^verbatim>\<open>.jpeg\<close> or
  \<^verbatim>\<open>.gif\<close>, passes the test: once the converter has returned, neither method raises the
  image exception; the text content is returned when the path contains \<^verbatim>\<open>.zip\<close> or the
  question is absent or empty, and otherwise the model is called with the prompt.
\<close>

theorem other_extensions_pass_image_check:
  assumes "suffix (py ''.'' @ name) fp" and "of_char CHR ''.'' \<notin> set name"
    and "py ''.'' @ name \<noteq> py ''.png''" and "py ''.'' @ name \<noteq> py ''.jpg''"
    and "convert e fp = Inr res"
  shows "\<not> is_image fp
       \<and> result (forward e fp q) \<noteq> Inl UnsupportedInputError
       \<and> result (forward_initial_exam_mode e fp q) \<noteq> Inl UnsupportedInputError
       \<and> (sublist (py ''.zip'') fp \<or> q = None \<or> q = Some [] \<longrightarrow>
            forward e fp q = finish fp (Inr (text_content res))
          \<and> forward_initial_exam_mode e fp q = finish fp (Inr (text_content res)))
       \<and> (\<not> sublist (py ''.zip'') fp \<and> q = Some qs \<and> qs \<noteq> [] \<longrightarrow>
            model_calls (forward e fp q) = [forward_messages (text_limit e) res qs]
          \<and> model_calls (forward_initial_exam_mode e fp q)
              = [exam_messages (text_limit e) res qs])"
proof -
  have n: "\<not> is_image fp" by (rule other_extension_not_image[OF assms(1-4)])
  note c = assms(5)
  have quiet: "forward e fp q = finish fp (Inr (text_content res))
          \<and> forward_initial_exam_mode e fp q = finish fp (Inr (text_content res))"
    if "is_zip fp \<or> q = None \<or> q = Some []"
  proof (cases "is_zip fp")
    case True
    then show ?thesis by (simp add: forward_zip[OF c n] exam_zip[OF c n])
  next
    case False
    with that have "q = None \<or> q = Some []" by simp
    then show ?thesis by (simp add: forward_no_question[OF c n] exam_no_question[OF c n])
  qed
  have asks: "forward e fp q = call_model e fp (forward_messages (text_limit e) res qs)
          \<and> forward_initial_exam_mode e fp q
              = call_model e fp (exam_messages (text_limit e) res qs)"
    if "\<not> is_zip fp" "q = Some qs" "qs \<noteq> []"
    using that by (simp add: forward_asks[OF c n] exam_asks[OF c n])
  have never: "result (forward e fp q) \<noteq> Inl UnsupportedInputError
       \<and> result (forward_initial_exam_mode e fp q) \<noteq> Inl UnsupportedInputError"
  proof (cases "is_zip fp \<or> q = None \<or> q = Some []")
    case True
    from quiet[OF True] show ?thesis by (simp add: finish_def)
  next
    case False
    then obtain qs' where "\<not> is_zip fp" "q = Some qs'" "qs' \<noteq> []" by auto
    then show ?thesis
      by (simp add: forward_asks[OF c n] exam_asks[OF c n] result_call_model_not_image_error)
  qed
  from n quiet asks never show ?thesis
    by (simp add: is_zip_iff call_model_def)
qed

theorem other_extensions_pass_image_check_witness:
  "suffix (py ''.'' @ py ''jpeg'') (py ''scan.jpeg'')
   \<and> suffix (py ''.'' @ py ''gif'') (py ''anim.gif'')
   \<and> \<not> is_image (py ''scan.jpeg'') \<and> \<not> is_image (py ''anim.gif'')
   \<and> forward q3_env (py ''scan.jpeg'') None = finish (py ''scan.jpeg'') (Inr (text_content q3_result))
   \<and> forward_initial_exam_mode q3_env (py ''scan.jpeg'') None
       = finish (py ''scan.jpeg'') (Inr (text_content q3_result))
   \<and> model_calls (forward q3_env (py ''anim.gif'') (Some (py ''What is shown?'')))
       = [forward_messages (text_limit q3_env) q3_result (py ''What is shown?'')]
   \<and> model_calls (forward_initial_exam_mode q3_env (py ''anim.gif'') (Some (py ''What is shown?'')))
       = [exam_messages (text_limit q3_env) q3_result (py ''What is shown?'')]
   \<and> result (forward q3_env (py ''anim.gif'') (Some (py ''What is shown?'')))
       \<noteq> Inl UnsupportedInputError
   \<and> result (forward_initial_exam_mode q3_env (py ''anim.gif'') (Some (py ''What is shown?'')))
       \<noteq> Inl UnsupportedInputError"
proof -
  have s1: "suffix (py ''.'' @ py ''jpeg'') (py ''scan.jpeg'')"
    and s2: "suffix (py ''.'' @ py ''gif'') (py ''anim.gif'')"
    by (simp_all add: suffix_to_prefix py_def)
  have d1: "of_char CHR ''.'' \<notin> set (py ''jpeg'')" and d2: "of_char CHR ''.'' \<notin> set (py ''gif'')"
    by (simp_all add: py_def)
  have e1: "py ''.'' @ py ''jpeg'' \<noteq> py ''.png''" "py ''.'' @ py ''jpeg'' \<noteq> py ''.jpg''"
    and e2: "py ''.'' @ py ''gif'' \<noteq> py ''.png''" "py ''.'' @ py ''gif'' \<noteq> py ''.jpg''"
    by (simp_all add: py_def)
  have z: "\<not> sublist (py ''.zip'') (py ''anim.gif'')"
    using example_paths(16) by (simp add: is_zip_iff)
  have q: "py ''What is shown?'' \<noteq> []" by (simp add: py_def)
  from other_extensions_pass_image_check[OF s1 d1 e1 example_converters(1), of None]
    other_extensions_pass_image_check[OF s2 d2 e2 example_converters(1),
      of "Some (py ''What is shown?'')" "py ''What is shown?''"]
  show ?thesis using s1 s2 z q by simp
qed

text \<open>
  C8 as stated fails on a path with such an extension that also contains \<^verbatim>\<open>.zip\<close>:
  for \<^verbatim>\<open>pics.zip.gif\<close> with a question the text content is returned and the model is
  not called.
\<close>

theorem zip_gif_with_question_counterexample:
  "suffix (py ''.gif'') (py ''pics.zip.gif'')
   \<and> forward q3_env (py ''pics.zip.gif'') (Some (py ''What is shown?''))
       = \<lparr>result = Inr (text_content q3_result), convert_calls = [py ''pics.zip.gif''],
          model_calls = []\<rparr>
   \<and> forward_initial_exam_mode q3_env (py ''pics.zip.gif'') (Some (py ''What is shown?''))
       = \<lparr>result = Inr (text_content q3_result), convert_calls = [py ''pics.zip.gif''],
          model_calls = []\<rparr>"
proof -
  have s: "suffix (py ''.gif'') (py ''pics.zip.gif'')"
    by (simp add: suffix_to_prefix py_def)
  show ?thesis
    using s
    by (simp add: forward_zip[OF example_converters(1) example_paths(17) example_paths(18)]
        exam_zip[OF example_converters(1) example_paths(17) example_paths(18)] finish_def)
qed

subsection \<open>The two methods side by side\<close>

text \<open>
  Every call takes one of four branches, and takes the same one in both methods: the
  converter raises, the path is an image, the text content is returned, or the model is
  asked.
\<close>

lemma finish_fields:
  "result (finish fp r) = r" "convert_calls (finish fp r) = [fp]" "model_calls (finish fp r) = []"
  by (simp_all add: finish_def)

lemma call_model_fields:
  "convert_calls (call_model e fp ms) = [fp]" "model_calls (call_model e fp ms) = [ms]"
  by (simp_all add: call_model_def)

lemma branches:
  obtains (raises) x where "convert e fp = Inl x"
      "forward e fp q = finish fp (Inl (ConversionError x))"
      "forward_initial_exam_mode e fp q = finish fp (Inl (ConversionError x))"
  | (image) res where "convert e fp = Inr res" "is_image fp"
      "forward e fp q = finish fp (Inl UnsupportedInputError)"
      "forward_initial_exam_mode e fp q = finish fp (Inl UnsupportedInputError)"
  | (plain) res where "convert e fp = Inr res" "\<not> is_image fp"
      "is_zip fp \<or> q = None \<or> q = Some []"
      "forward e fp q = finish fp (Inr (text_content res))"
      "forward_initial_exam_mode e fp q = finish fp (Inr (text_content res))"
  | (asks) res qs where "convert e fp = Inr res" "\<not> is_image fp" "\<not> is_zip fp"
      "q = Some qs" "qs \<noteq> []"
      "forward e fp q = call_model e fp (forward_messages (text_limit e) res qs)"
      "forward_initial_exam_mode e fp q = call_model e fp (exam_messages (text_limit e) res qs)"
proof (cases "convert e fp")
  case (Inl x)
  then show ?thesis
    using raises by (simp add: forward_conversion_raises exam_conversion_raises)
next
  case (Inr res)
  show ?thesis
  proof (cases "is_image fp")
    case True
    with Inr show ?thesis using image by (simp add: forward_image exam_image)
  next
    case n: False
    show ?thesis
    proof (cases "is_zip fp")
      case True
      with Inr n show ?thesis using plain[of res] by (simp add: forward_zip exam_zip)
    next
      case z: False
      show ?thesis
      proof (cases "q = None \<or> q = Some []")
        case True
        with Inr n show ?thesis
          using plain[of res] forward_no_question[OF Inr n True] exam_no_question[OF Inr n True]
          by simp
      next
        case False
        then obtain qs where q: "q = Some qs" "qs \<noteq> []" by (cases q) auto
        with Inr n z show ?thesis using asks[of res qs] by (simp add: forward_asks exam_asks)
      qed
    qed
  qed
qed

lemma entry_points_cases:
  "convert_calls (forward e fp q) = [fp]
   \<and> convert_calls (forward_initial_exam_mode e fp q) = [fp]
   \<and> (model_calls (forward e fp q) = []) = (model_calls (forward_initial_exam_mode e fp q) = [])
   \<and> (model_calls (forward e fp q) = []) =
       ((\<exists>x. convert e fp = Inl x) \<or> is_image fp \<or> is_zip fp \<or> q = None \<or> q = Some [])
   \<and> (model_calls (forward e fp q) = [] \<longrightarrow>
        forward e fp q = forward_initial_exam_mode e fp q)
   \<and> (model_calls (forward e fp q) \<noteq> [] \<longrightarrow>
        (\<exists>res qs. convert e fp = Inr res \<and> q = Some qs
           \<and> forward e fp q = call_model e fp (forward_messages (text_limit e) res qs)
           \<and> forward_initial_exam_mode e fp q
               = call_model e fp (exam_messages (text_limit e) res qs)))"
proof (cases rule: branches[of e fp q])
  case (raises x)
  then show ?thesis by (simp add: finish_fields)
next
  case (image res)
  then show ?thesis by (simp add: finish_fields)
next
  case (plain res)
  then show ?thesis by (simp add: finish_fields)
next
  case (asks res qs)
  then show ?thesis by (simp add: call_model_fields)
qed

text \<open>
  C6, as amended. With the question passed (as \<^verbatim>\<open>None\<close> or as a string), the two
  methods call the converter in the same way (once, first, with the path), reach the
  model on the same inputs, and on every path that does not reach the model have the
  same outcome: the same error from the converter, the same image exception, the same
  text content for archives and for an absent or empty question. Where they reach the
  model they differ in the prompt only. Their signatures differ in one point:
  \<^verbatim>\<open>forward\<close> gives \<^verbatim>\<open>question\<close> the default \<^verbatim>\<open>None\<close>, and
  \<^verbatim>\<open>forward_initial_exam_mode\<close> requires it.
\<close>

theorem entry_points_agree:
  "convert_calls (forward e fp q) = [fp]
   \<and> convert_calls (forward_initial_exam_mode e fp q) = [fp]
   \<and> (model_calls (forward e fp q) = []) = (model_calls (forward_initial_exam_mode e fp q) = [])
   \<and> (model_calls (forward e fp q) = []) =
       ((\<exists>x. convert e fp = Inl x) \<or> suffix (py ''.png'') fp \<or> suffix (py ''.jpg'') fp
        \<or> sublist (py ''.zip'') fp \<or> q = None \<or> q = Some [])
   \<and> (model_calls (forward e fp q) = [] \<longrightarrow>
        forward e fp q = forward_initial_exam_mode e fp q)
   \<and> (model_calls (forward e fp q) \<noteq> [] \<longrightarrow>
        (\<exists>res qs. convert e fp = Inr res \<and> q = Some qs
           \<and> forward e fp q = call_model e fp (forward_messages (text_limit e) res qs)
           \<and> forward_initial_exam_mode e fp q
               = call_model e fp (exam_messages (text_limit e) res qs)))
   \<and> call_forward e fp (Passed q) = forward e fp q
   \<and> call_forward_initial_exam_mode e fp (Passed q) = forward_initial_exam_mode e fp q
   \<and> call_forward e fp Omitted = forward e fp None
   \<and> call_forward_initial_exam_mode e fp Omitted
       = \<lparr>result = Inl TypeError, convert_calls = [], model_calls = []\<rparr>"
proof -
  have binding: "call_forward e fp (Passed q) = forward e fp q"
    "call_forward_initial_exam_mode e fp (Passed q) = forward_initial_exam_mode e fp q"
    "call_forward e fp Omitted = forward e fp None"
    "call_forward_initial_exam_mode e fp Omitted
       = \<lparr>result = Inl TypeError, convert_calls = [], model_calls = []\<rparr>"
    by (simp_all add: call_forward_def call_forward_initial_exam_mode_def)
  have img: "(is_image fp \<or> R) = (suffix (py ''.png'') fp \<or> suffix (py ''.jpg'') fp \<or> R)" for R
    by (simp add: is_image_iff)
  note main = entry_points_cases[of e fp q, unfolded img is_zip_iff]
  show ?thesis
    by (intro conjI main[THEN conjunct1] main[THEN conjunct2, THEN conjunct1]
        main[THEN conjunct2, THEN conjunct2, THEN conjunct1]
        main[THEN conjunct2, THEN conjunct2, THEN conjunct2, THEN conjunct1]
        main[THEN conjunct2, THEN conjunct2, THEN conjunct2, THEN conjunct2, THEN conjunct1]
        main[THEN conjunct2, THEN conjunct2, THEN conjunct2, THEN conjunct2, THEN conjunct2]
        binding)
qed

theorem entry_points_agree_witness:
  "model_calls (forward q3_env (py ''archive.zip'') (Some (py ''summarize''))) = []
   \<and> forward q3_env (py ''archive.zip'') (Some (py ''summarize''))
       = forward_initial_exam_mode q3_env (py ''archive.zip'') (Some (py ''summarize''))
   \<and> forward_initial_exam_mode q3_env (py ''archive.zip'') (Some (py ''summarize''))
       = \<lparr>result = Inr (text_content q3_result), convert_calls = [py ''archive.zip''],
          model_calls = []\<rparr>
   \<and> model_calls (forward notes_env (py ''report.pdf'') (Some (py ''What?''))) \<noteq> []
   \<and> forward notes_env (py ''report.pdf'') (Some (py ''What?''))
       = call_model notes_env (py ''report.pdf'')
           (forward_messages (text_limit notes_env) notes_result (py ''What?''))
   \<and> forward_initial_exam_mode notes_env (py ''report.pdf'') (Some (py ''What?''))
       = call_model notes_env (py ''report.pdf'')
           (exam_messages (text_limit notes_env) notes_result (py ''What?''))"
proof -
  have z: "sublist (py ''.zip'') (py ''archive.zip'')"
    using example_paths(7) by (simp add: is_zip_iff)
  have x: "forward_initial_exam_mode q3_env (py ''archive.zip'') (Some (py ''summarize''))
       = \<lparr>result = Inr (text_content q3_result), convert_calls = [py ''archive.zip''],
          model_calls = []\<rparr>"
    by (simp add: exam_zip[OF example_converters(1) example_paths(8) example_paths(7)]
        finish_def)
  have q: "py ''What?'' \<noteq> []" by (simp add: py_def)
  have n: "\<not> suffix (py ''.png'') (py ''report.pdf'')"
          "\<not> suffix (py ''.jpg'') (py ''report.pdf'')"
    using example_paths(11) by (simp_all add: is_image_iff)
  have nz: "\<not> sublist (py ''.zip'') (py ''report.pdf'')"
    using example_paths(12) by (simp add: is_zip_iff)
  note A = entry_points_agree[of q3_env "py ''archive.zip''" "Some (py ''summarize'')"]
  note B = entry_points_agree[of notes_env "py ''report.pdf''" "Some (py ''What?'')"]
  note A4 = A[THEN conjunct2, THEN conjunct2, THEN conjunct2, THEN conjunct1]
  note A5 = A[THEN conjunct2, THEN conjunct2, THEN conjunct2, THEN conjunct2, THEN conjunct1]
  note B4 = B[THEN conjunct2, THEN conjunct2, THEN conjunct2, THEN conjunct1]
  note B6 = B[THEN conjunct2, THEN conjunct2, THEN conjunct2, THEN conjunct2, THEN conjunct2,
      THEN conjunct1]
  have a: "model_calls (forward q3_env (py ''archive.zip'') (Some (py ''summarize''))) = []"
    by (simp add: A4 z)
  have a2: "forward q3_env (py ''archive.zip'') (Some (py ''summarize''))
       = forward_initial_exam_mode q3_env (py ''archive.zip'') (Some (py ''summarize''))"
    using A5 a by (rule mp)
  have b: "model_calls (forward notes_env (py ''report.pdf'') (Some (py ''What?''))) \<noteq> []"
    by (simp add: B4 example_converters2 n nz q)
  from B6 b obtain res qs where r: "convert notes_env (py ''report.pdf'') = Inr res"
    "Some (py ''What?'') = Some qs"
    "forward notes_env (py ''report.pdf'') (Some (py ''What?''))
       = call_model notes_env (py ''report.pdf'') (forward_messages (text_limit notes_env) res qs)"
    "forward_initial_exam_mode notes_env (py ''report.pdf'') (Some (py ''What?''))
       = call_model notes_env (py ''report.pdf'') (exam_messages (text_limit notes_env) res qs)"
    by blast
  from r(1) have res: "res = notes_result" by (simp add: example_converters2)
  from r(2) have qs: "qs = py ''What?''" by simp
  from a a2 x b r(3,4) show ?thesis unfolding res qs by (intro conjI) simp_all
qed

text \<open>
  C6 as stated fails on the signatures: a call that leaves the question out goes through
  \<^verbatim>\<open>forward\<close> with the default and returns the text content, and is a
  \<^verbatim>\<open>TypeError\<close> for \<^verbatim>\<open>forward_initial_exam_mode\<close>, raised before the converter is
  called.
\<close>

theorem omitted_question_counterexample:
  "call_forward q3_env (py ''report.pdf'') Omitted
     = \<lparr>result = Inr (text_content q3_result), convert_calls = [py ''report.pdf''],
        model_calls = []\<rparr>
   \<and> call_forward_initial_exam_mode q3_env (py ''report.pdf'') Omitted
     = \<lparr>result = Inl TypeError, convert_calls = [], model_calls = []\<rparr>
   \<and> call_forward q3_env (py ''report.pdf'') Omitted
     \<noteq> call_forward_initial_exam_mode q3_env (py ''report.pdf'') Omitted"
  by (simp add: call_forward_def call_forward_initial_exam_mode_def finish_def
      forward_no_question[OF example_converters(1) example_paths(11)])

end
